theory Spec2Isabelle
  imports Main
begin

section \<open>Model identifiers of jupyter-ai-magics (\<^verbatim>\<open>model_id.py\<close>)\<close>

text \<open>
  The module defines the class \<^verbatim>\<open>ModelId\<close> (two string fields), its constructor from a
  string \<^verbatim>\<open>ModelId.from_str\<close>, its conversion to a string \<^verbatim>\<open>ModelId.__str__\<close>, and the
  exception \<^verbatim>\<open>InvalidModelId\<close>.

  Python strings are modelled as \<^typ>\<open>string\<close>. The only character the code inspects is
  the colon, an ASCII character, which never occurs inside the encoding of another
  character, so splitting at the first colon is the same on characters and on bytes.
\<close>

subsection \<open>Data\<close>

text \<open>
  \<^verbatim>\<open>class ModelId(BaseModel): provider_id: str; model_name: str\<close>
\<close>

record ModelId =
  provider_id :: string
  model_name :: string

text \<open>
  The exceptions that can leave \<^verbatim>\<open>from_str\<close>, each with the text that \<^verbatim>\<open>str()\<close> gives
  for it: \<^verbatim>\<open>InvalidModelId\<close>, raised by the code itself, and Python's \<^verbatim>\<open>ValueError\<close>,
  raised by the unpacking of a list into two variables when the list has not exactly
  two elements.
\<close>

datatype error = InvalidModelId string | ValueError string

text \<open>
  \<^verbatim>\<open>
  class InvalidModelId(Exception):
      def __init__(self, message):
          super().__init__(f"Invalid model ID: {message}.")
  \<close>
\<close>

definition InvalidModelId_init :: "string \<Rightarrow> error" where
  "InvalidModelId_init message = InvalidModelId (''Invalid model ID: '' @ message @ ''.'')"

subsection \<open>The Python primitives the code calls\<close>

text \<open>
  \<^verbatim>\<open>s.split(sep, 1)\<close> for a separator of one character: at most one split, at the first
  occurrence of the separator. Without an occurrence the result is the one-element
  list \<^verbatim>\<open>[s]\<close>.
\<close>

definition str_split1 :: "char \<Rightarrow> string \<Rightarrow> string list" where
  "str_split1 sep s =
     (if sep \<in> set s
      then [takeWhile (\<lambda>c. c \<noteq> sep) s, tl (dropWhile (\<lambda>c. c \<noteq> sep) s)]
      else [s])"

text \<open>
  \<^verbatim>\<open>a, b = xs\<close>: unpacking a list into two variables raises \<^verbatim>\<open>ValueError\<close> unless the
  list has exactly two elements.
\<close>

fun unpack2 :: "string list \<Rightarrow> error + string \<times> string" where
  "unpack2 [a, b] = Inr (a, b)"
| "unpack2 [] = Inl (ValueError ''not enough values to unpack (expected 2, got 0)'')"
| "unpack2 [a] = Inl (ValueError ''not enough values to unpack (expected 2, got 1)'')"
| "unpack2 (a # b # c # xs) = Inl (ValueError ''too many values to unpack (expected 2)'')"

subsection \<open>\<^verbatim>\<open>ModelId.from_str\<close> and \<^verbatim>\<open>ModelId.__str__\<close>\<close>

text \<open>
  The table \<^verbatim>\<open>MODEL_ID_ALIASES\<close> is imported from the module \<^verbatim>\<open>aliases\<close>; it is a
  parameter here, a dictionary from strings to strings.

  Line 21 of the source:
  \<^verbatim>\<open>resolved_model_id = MODEL_ID_ALIASES.get(model_id, None) or model_id\<close>.
  Python's \<^verbatim>\<open>x or y\<close> is \<^verbatim>\<open>y\<close> when \<^verbatim>\<open>x\<close> is \<^verbatim>\<open>None\<close> or the empty string.
\<close>

definition resolved_model_id :: "(string \<rightharpoonup> string) \<Rightarrow> string \<Rightarrow> string" where
  "resolved_model_id MODEL_ID_ALIASES model_id =
     (case MODEL_ID_ALIASES model_id of
        None \<Rightarrow> model_id
      | Some v \<Rightarrow> if v = [] then model_id else v)"

text \<open>
  \<^verbatim>\<open>
  def from_str(cls, model_id: str) -> "ModelId":
      resolved_model_id = MODEL_ID_ALIASES.get(model_id, None) or model_id
      if ":" not in model_id:
          raise InvalidModelId(resolved_model_id)
      provider_id, model_name = resolved_model_id.split(":", 1)
      return ModelId(provider_id=provider_id, model_name=model_name)
  \<close>
  The test for a colon reads \<^verbatim>\<open>model_id\<close>, the argument, and the split reads
  \<^verbatim>\<open>resolved_model_id\<close>; the model keeps both as they are written.
\<close>

definition from_str :: "(string \<rightharpoonup> string) \<Rightarrow> string \<Rightarrow> error + ModelId" where
  "from_str MODEL_ID_ALIASES model_id =
     (let resolved = resolved_model_id MODEL_ID_ALIASES model_id in
      if CHR '':'' \<notin> set model_id
      then Inl (InvalidModelId_init resolved)
      else (case unpack2 (str_split1 CHR '':'' resolved) of
              Inl e \<Rightarrow> Inl e
            | Inr (p, n) \<Rightarrow> Inr \<lparr>provider_id = p, model_name = n\<rparr>))"

text \<open>
  \<^verbatim>\<open>def __str__(self): return self.provider_id + ":" + self.model_name\<close>
\<close>

definition ModelId_str :: "ModelId \<Rightarrow> string" where
  "ModelId_str m = provider_id m @ '':'' @ model_name m"

subsection \<open>\<^verbatim>\<open>from_str\<close> as a run on the state of the module\<close>

text \<open>
  The state that a call of \<^verbatim>\<open>from_str\<close> can reach is the global state of the program:
  the table \<^verbatim>\<open>MODEL_ID_ALIASES\<close>, a mutable dictionary bound at module level, and
  whatever else the program holds, which is the extension part of the record.
\<close>

record program_state =
  MODEL_ID_ALIASES :: "string \<rightharpoonup> string"

text \<open>
  A run of \<^verbatim>\<open>from_str\<close> takes the argument and the state before the call and gives the
  outcome (the exception raised or the object returned) and the state after the call.
  Statement by statement: line 21 reads the global table with \<^verbatim>\<open>dict.get\<close>, which
  looks a key up and stores nothing; lines 23 and 24 test the argument and raise; line
  26 splits and unpacks local strings; line 27 builds the result. No statement assigns
  to a global or calls a method that changes the table, so every branch hands on the
  state it was given.
\<close>

definition from_str_run ::
  "string \<Rightarrow> 'a program_state_scheme \<Rightarrow> (error + ModelId) \<times> 'a program_state_scheme" where
  "from_str_run model_id \<sigma> =
     (let resolved = resolved_model_id (MODEL_ID_ALIASES \<sigma>) model_id in
      if CHR '':'' \<notin> set model_id
      then (Inl (InvalidModelId_init resolved), \<sigma>)
      else (case unpack2 (str_split1 CHR '':'' resolved) of
              Inl e \<Rightarrow> (Inl e, \<sigma>)
            | Inr (p, n) \<Rightarrow> (Inr \<lparr>provider_id = p, model_name = n\<rparr>, \<sigma>)))"

section \<open>Splitting at the first colon\<close>

lemma str_split1_no_sep: "sep \<notin> set s \<Longrightarrow> str_split1 sep s = [s]"
  by (simp add: str_split1_def)

lemma takeWhile_upto_sep:
  "sep \<notin> set p \<Longrightarrow> takeWhile (\<lambda>c. c \<noteq> sep) (p @ sep # n) = p"
  by (induction p) auto

lemma dropWhile_upto_sep:
  "sep \<notin> set p \<Longrightarrow> dropWhile (\<lambda>c. c \<noteq> sep) (p @ sep # n) = sep # n"
  by (induction p) auto

lemma str_split1_at_first:
  "sep \<notin> set p \<Longrightarrow> str_split1 sep (p @ sep # n) = [p, n]"
  by (simp add: str_split1_def takeWhile_upto_sep dropWhile_upto_sep)

lemma first_sep_decomposition:
  assumes "sep \<in> set s"
  shows "\<exists>p n. s = p @ sep # n \<and> sep \<notin> set p"
  using split_list_first [OF assms] by blast

lemma first_sep_unique:
  assumes eq: "p @ sep # n = p' @ sep # n'"
    and p: "sep \<notin> set p" and p': "sep \<notin> set p'"
  shows "p = p' \<and> n = n'"
proof -
  have "p = takeWhile (\<lambda>c. c \<noteq> sep) (p @ sep # n)"
    using p by (simp add: takeWhile_upto_sep)
  also have "\<dots> = takeWhile (\<lambda>c. c \<noteq> sep) (p' @ sep # n')"
    by (simp only: eq)
  also have "\<dots> = p'"
    using p' by (simp add: takeWhile_upto_sep)
  finally have "p = p'" .
  with eq show ?thesis by simp
qed

lemma unpack2_split1_sep:
  "sep \<notin> set p \<Longrightarrow> unpack2 (str_split1 sep (p @ sep # n)) = Inr (p, n)"
  by (simp add: str_split1_at_first)

lemma unpack2_split1_no_sep:
  "sep \<notin> set s \<Longrightarrow>
   unpack2 (str_split1 sep s) = Inl (ValueError ''not enough values to unpack (expected 2, got 1)'')"
  by (simp add: str_split1_no_sep)

section \<open>What \<^const>\<open>from_str\<close> returns\<close>

lemma from_str_no_colon:
  "CHR '':'' \<notin> set s \<Longrightarrow>
   from_str aliases s = Inl (InvalidModelId_init (resolved_model_id aliases s))"
  by (simp add: from_str_def)

lemma from_str_resolved_split:
  assumes "CHR '':'' \<in> set s"
    and "resolved_model_id aliases s = p @ CHR '':'' # n"
    and "CHR '':'' \<notin> set p"
  shows "from_str aliases s = Inr \<lparr>provider_id = p, model_name = n\<rparr>"
  using assms by (simp add: from_str_def unpack2_split1_sep)

lemma from_str_resolved_no_colon:
  assumes "CHR '':'' \<in> set s"
    and "CHR '':'' \<notin> set (resolved_model_id aliases s)"
  shows "from_str aliases s =
         Inl (ValueError ''not enough values to unpack (expected 2, got 1)'')"
  using assms by (simp add: from_str_def unpack2_split1_no_sep)

lemma from_str_Inr_iff:
  "from_str aliases s = Inr m \<longleftrightarrow>
   CHR '':'' \<in> set s \<and> CHR '':'' \<notin> set (provider_id m) \<and>
   resolved_model_id aliases s = provider_id m @ CHR '':'' # model_name m"
  (is "?L \<longleftrightarrow> ?R")
proof
  assume R: ?R
  then have "from_str aliases s = Inr \<lparr>provider_id = provider_id m, model_name = model_name m\<rparr>"
    by (intro from_str_resolved_split) simp_all
  then show ?L by simp
next
  assume L: ?L
  have raw: "CHR '':'' \<in> set s"
  proof (rule ccontr)
    assume "CHR '':'' \<notin> set s"
    then have "from_str aliases s = Inl (InvalidModelId_init (resolved_model_id aliases s))"
      by (rule from_str_no_colon)
    with L show False by simp
  qed
  have res: "CHR '':'' \<in> set (resolved_model_id aliases s)"
  proof (rule ccontr)
    assume "CHR '':'' \<notin> set (resolved_model_id aliases s)"
    with raw have "from_str aliases s =
        Inl (ValueError ''not enough values to unpack (expected 2, got 1)'')"
      by (rule from_str_resolved_no_colon)
    with L show False by simp
  qed
  from first_sep_decomposition [OF res]
  obtain p n where r: "resolved_model_id aliases s = p @ CHR '':'' # n"
    and p: "CHR '':'' \<notin> set p"
    by blast
  have "from_str aliases s = Inr \<lparr>provider_id = p, model_name = n\<rparr>"
    using raw r p by (rule from_str_resolved_split)
  with L have m: "m = \<lparr>provider_id = p, model_name = n\<rparr>"
    by simp
  show ?R using raw r p by (simp add: m)
qed

lemma from_str_InvalidModelId_iff:
  "from_str aliases s = Inl (InvalidModelId msg) \<longleftrightarrow>
   CHR '':'' \<notin> set s \<and> msg = ''Invalid model ID: '' @ resolved_model_id aliases s @ ''.''"
proof (cases "CHR '':'' \<in> set s")
  case False
  then show ?thesis
    by (auto simp: from_str_no_colon InvalidModelId_init_def)
next
  case raw: True
  show ?thesis
  proof (cases "CHR '':'' \<in> set (resolved_model_id aliases s)")
    case False
    with raw show ?thesis by (simp add: from_str_resolved_no_colon)
  next
    case True
    from first_sep_decomposition [OF True]
    obtain p n where "resolved_model_id aliases s = p @ CHR '':'' # n" and "CHR '':'' \<notin> set p"
      by blast
    with raw have "from_str aliases s = Inr \<lparr>provider_id = p, model_name = n\<rparr>"
      by (rule from_str_resolved_split)
    with raw show ?thesis by simp
  qed
qed

lemma from_str_ValueError_iff:
  "(\<exists>msg. from_str aliases s = Inl (ValueError msg)) \<longleftrightarrow>
   CHR '':'' \<in> set s \<and> CHR '':'' \<notin> set (resolved_model_id aliases s)"
proof (cases "CHR '':'' \<in> set s")
  case False
  then show ?thesis
    by (simp add: from_str_no_colon InvalidModelId_init_def)
next
  case raw: True
  show ?thesis
  proof (cases "CHR '':'' \<in> set (resolved_model_id aliases s)")
    case False
    with raw show ?thesis by (simp add: from_str_resolved_no_colon)
  next
    case True
    from first_sep_decomposition [OF True]
    obtain p n where "resolved_model_id aliases s = p @ CHR '':'' # n" and "CHR '':'' \<notin> set p"
      by blast
    with raw have "from_str aliases s = Inr \<lparr>provider_id = p, model_name = n\<rparr>"
      by (rule from_str_resolved_split)
    with raw True show ?thesis by simp
  qed
qed

section \<open>Alias resolution\<close>

lemma resolved_model_id_absent: "aliases s = None \<Longrightarrow> resolved_model_id aliases s = s"
  by (simp add: resolved_model_id_def)

lemma resolved_model_id_present:
  "aliases s = Some v \<Longrightarrow> v \<noteq> [] \<Longrightarrow> resolved_model_id aliases s = v"
  by (simp add: resolved_model_id_def)

lemma resolved_model_id_fixed_iff:
  "resolved_model_id aliases s = s \<longleftrightarrow>
   aliases s = None \<or> aliases s = Some [] \<or> aliases s = Some s"
  by (auto simp: resolved_model_id_def split: option.splits)

lemma from_str_alias_key_with_colon:
  assumes "aliases k = Some (p @ CHR '':'' # n)" and "CHR '':'' \<notin> set p"
    and "CHR '':'' \<in> set k"
  shows "from_str aliases k = Inr \<lparr>provider_id = p, model_name = n\<rparr>"
proof -
  have "resolved_model_id aliases k = p @ CHR '':'' # n"
    using assms(1) by (simp add: resolved_model_id_present)
  with assms(3) show ?thesis
    using assms(2) by (rule from_str_resolved_split)
qed

lemma from_str_alias_key_without_colon:
  assumes "aliases k = Some v" and "v \<noteq> []" and "CHR '':'' \<notin> set k"
  shows "from_str aliases k = Inl (InvalidModelId (''Invalid model ID: '' @ v @ ''.''))"
  using assms
  by (simp add: from_str_no_colon resolved_model_id_present InvalidModelId_init_def)

section \<open>The cases of \<^verbatim>\<open>test_simple_model_ids\<close>\<close>

lemma test_simple_model_ids:
  assumes "aliases ''openai:gpt4'' = None"
    and "aliases ''bedrock-chat:anthropic.claude-instant-v1'' = None"
    and "aliases ''togetherai:NousResearch/Nous-Hermes-Llama2-70b'' = None"
  shows "from_str aliases ''openai:gpt4'' =
           Inr \<lparr>provider_id = ''openai'', model_name = ''gpt4''\<rparr>"
    and "from_str aliases ''bedrock-chat:anthropic.claude-instant-v1'' =
           Inr \<lparr>provider_id = ''bedrock-chat'', model_name = ''anthropic.claude-instant-v1''\<rparr>"
    and "from_str aliases ''togetherai:NousResearch/Nous-Hermes-Llama2-70b'' =
           Inr \<lparr>provider_id = ''togetherai'',
                model_name = ''NousResearch/Nous-Hermes-Llama2-70b''\<rparr>"
  using assms
  by (simp_all add: from_str_def resolved_model_id_def str_split1_def)

section \<open>Claims about the parser\<close>

subsection \<open>Aliases whose key has no colon\<close>

text \<open>
  Claim C1: alias resolution precedes the splitting at the colon: for every alias key
  \<open>k\<close> whose value is \<open>p:n\<close>, \<^verbatim>\<open>from_str(k)\<close> succeeds with provider \<open>p\<close> and name \<open>n\<close>,
  whether or not \<open>k\<close> itself contains a colon.

  The code tests the argument \<^verbatim>\<open>model_id\<close> for a colon, not \<^verbatim>\<open>resolved_model_id\<close>, and
  so rejects every alias key that has no colon, although it reports the resolved
  string, a well-formed identifier, as the invalid one. Evaluated on the table
  \<^verbatim>\<open>{"gpt3": "openai:text-davinci-003"}\<close> and the argument \<^verbatim>\<open>"gpt3"\<close>:
\<close>

theorem from_str_colonless_alias_key_rejected:
  "from_str (map_of [(''gpt3'', ''openai:text-davinci-003'')]) ''gpt3'' =
   Inl (InvalidModelId ''Invalid model ID: openai:text-davinci-003.'')"
  by (simp add: from_str_def resolved_model_id_def InvalidModelId_init_def)

subsection \<open>The errors that leave \<^const>\<open>from_str\<close>\<close>

text \<open>
  Claim C2: \<^verbatim>\<open>from_str\<close> raises \<^verbatim>\<open>InvalidModelId\<close> exactly when the resolved string
  contains no colon, and no other error can escape.

  Because the test for a colon reads the argument, a resolved string without a colon
  reaches the split when the argument has a colon, and unpacking the one-element list
  raises \<^verbatim>\<open>ValueError\<close> (table \<^verbatim>\<open>{"a:b": "xyz"}\<close>, argument \<^verbatim>\<open>"a:b"\<close>); and
  \<^verbatim>\<open>InvalidModelId\<close> is raised for a resolved string that has a colon (table
  \<^verbatim>\<open>{"chatgpt": "openai-chat:gpt-3.5-turbo"}\<close>, argument \<^verbatim>\<open>"chatgpt"\<close>).
\<close>

theorem from_str_ValueError_escapes:
  "from_str (map_of [(''a:b'', ''xyz'')]) ''a:b'' =
     Inl (ValueError ''not enough values to unpack (expected 2, got 1)'') \<and>
   CHR '':'' \<in> set (resolved_model_id (map_of [(''chatgpt'', ''openai-chat:gpt-3.5-turbo'')]) ''chatgpt'') \<and>
   from_str (map_of [(''chatgpt'', ''openai-chat:gpt-3.5-turbo'')]) ''chatgpt'' =
     Inl (InvalidModelId ''Invalid model ID: openai-chat:gpt-3.5-turbo.'')"
  by (simp add: from_str_def resolved_model_id_def InvalidModelId_init_def str_split1_def)

subsection \<open>Identifiers that are not aliases\<close>

text \<open>
  Claim C3: for every string \<open>s\<close> that contains a colon and is not an alias key,
  \<^verbatim>\<open>from_str(s)\<close> succeeds; the provider is the part of \<open>s\<close> before its first colon and
  the name is all that follows that colon (further colons included, nothing trimmed,
  possibly empty).
\<close>

theorem from_str_unaliased_split:
  assumes "CHR '':'' \<in> set s" and "aliases s = None"
  shows "\<exists>p n. s = p @ CHR '':'' # n \<and> CHR '':'' \<notin> set p \<and>
           from_str aliases s = Inr \<lparr>provider_id = p, model_name = n\<rparr>"
proof -
  from first_sep_decomposition [OF assms(1)]
  obtain p n where s: "s = p @ CHR '':'' # n" and p: "CHR '':'' \<notin> set p"
    by blast
  have "resolved_model_id aliases s = p @ CHR '':'' # n"
    using assms(2) s by (simp add: resolved_model_id_absent)
  with assms(1) have "from_str aliases s = Inr \<lparr>provider_id = p, model_name = n\<rparr>"
    using p by (rule from_str_resolved_split)
  with s p show ?thesis by blast
qed

theorem from_str_unaliased_split_witness:
  "CHR '':'' \<in> set ''p:a:b'' \<and> map_of [(''gpt3'', ''openai:text-davinci-003'')] ''p:a:b'' = None \<and>
   from_str (map_of [(''gpt3'', ''openai:text-davinci-003'')]) ''p:a:b'' =
     Inr \<lparr>provider_id = ''p'', model_name = ''a:b''\<rparr>"
proof -
  let ?A = "map_of [(''gpt3'', ''openai:text-davinci-003'')]"
  have h1: "CHR '':'' \<in> set ''p:a:b''" by simp
  have h2: "?A ''p:a:b'' = None" by simp
  from from_str_unaliased_split [of "''p:a:b''" ?A, OF h1 h2]
  obtain p n where s: "''p:a:b'' = p @ CHR '':'' # n" and p: "CHR '':'' \<notin> set p"
    and r: "from_str ?A ''p:a:b'' = Inr \<lparr>provider_id = p, model_name = n\<rparr>"
    by blast
  have lit: "''p'' @ CHR '':'' # ''a:b'' = ''p:a:b''" by simp
  have np: "CHR '':'' \<notin> set ''p''" by simp
  note u = first_sep_unique [OF trans [OF lit s] np p]
  have pp: "p = ''p''" using u by (rule conjunct1 [THEN sym])
  have nn: "n = ''a:b''" using u by (rule conjunct2 [THEN sym])
  from r have "from_str ?A ''p:a:b'' = Inr \<lparr>provider_id = ''p'', model_name = ''a:b''\<rparr>"
    by (simp only: pp nn)
  with h1 h2 show ?thesis by (intro conjI)
qed

subsection \<open>The message of a failure\<close>

text \<open>
  Every \<^verbatim>\<open>InvalidModelId\<close> that \<^verbatim>\<open>from_str\<close> raises carries the string after alias
  resolution, not the argument, between \<^verbatim>\<open>Invalid model ID: \<close> and the full stop.
\<close>

lemma from_str_InvalidModelId_message:
  assumes "from_str aliases s = Inl (InvalidModelId msg)"
  shows "msg = ''Invalid model ID: '' @ resolved_model_id aliases s @ ''.''"
  using assms by (simp add: from_str_InvalidModelId_iff)

lemma from_str_InvalidModelId_message_example:
  "from_str (map_of [(''fast'', ''gpt4'')]) ''fast'' = Inl (InvalidModelId ''Invalid model ID: gpt4.'') \<and>
   ''Invalid model ID: gpt4.'' =
     ''Invalid model ID: '' @ resolved_model_id (map_of [(''fast'', ''gpt4'')]) ''fast'' @ ''.''"
proof -
  have h: "from_str (map_of [(''fast'', ''gpt4'')]) ''fast'' =
      Inl (InvalidModelId ''Invalid model ID: gpt4.'')"
    by (simp add: from_str_def resolved_model_id_def InvalidModelId_init_def)
  from from_str_InvalidModelId_message [OF h] h show ?thesis by (intro conjI)
qed

text \<open>
  Claim C4: whenever \<^verbatim>\<open>from_str\<close> fails, the error is an \<^verbatim>\<open>InvalidModelId\<close> whose message
  is exactly \<^verbatim>\<open>Invalid model ID: <resolved>.\<close>, where \<^verbatim>\<open><resolved>\<close> is the string after
  alias resolution, not the argument.

  The code fails without that message when the argument has a colon and the resolved
  string has none: the test of line 23 reads the argument, so the resolved string is
  not reported but split, and the unpacking of line 26 raises \<^verbatim>\<open>ValueError\<close>. With the
  table \<^verbatim>\<open>{"a:b": "xyz"}\<close> and the argument \<^verbatim>\<open>"a:b"\<close> the resolved string is \<^verbatim>\<open>"xyz"\<close>
  and the failure is not \<^verbatim>\<open>Invalid model ID: xyz.\<close>:
\<close>

theorem from_str_failure_without_message:
  "resolved_model_id (map_of [(''a:b'', ''xyz'')]) ''a:b'' = ''xyz'' \<and>
   from_str (map_of [(''a:b'', ''xyz'')]) ''a:b'' \<noteq>
     Inl (InvalidModelId ''Invalid model ID: xyz.'') \<and>
   from_str (map_of [(''a:b'', ''xyz'')]) ''a:b'' =
     Inl (ValueError ''not enough values to unpack (expected 2, got 1)'')"
  by (simp add: from_str_def resolved_model_id_def str_split1_def)

subsection \<open>An alias whose value is the empty string\<close>

text \<open>
  Claim C5: an alias entry whose value is the empty string counts as no entry: alias
  resolution gives back the argument itself (the \<^verbatim>\<open>or\<close> of line 21 falls through on
  every falsy value), and \<^verbatim>\<open>from_str\<close> gives what it gives without the entry.
\<close>

theorem empty_alias_value_as_absent:
  assumes "aliases raw = Some []"
  shows "resolved_model_id aliases raw = raw \<and>
         from_str aliases raw = from_str (aliases(raw := None)) raw"
  using assms by (simp add: from_str_def resolved_model_id_def)

theorem empty_alias_value_as_absent_witness:
  "map_of [(''openai:gpt4'', [])] ''openai:gpt4'' = Some [] \<and>
   resolved_model_id (map_of [(''openai:gpt4'', [])]) ''openai:gpt4'' = ''openai:gpt4'' \<and>
   from_str (map_of [(''openai:gpt4'', [])]) ''openai:gpt4'' =
     from_str ((map_of [(''openai:gpt4'', [])])(''openai:gpt4'' := None)) ''openai:gpt4''"
proof -
  have h: "map_of [(''openai:gpt4'', [])] ''openai:gpt4'' = Some []" by simp
  from empty_alias_value_as_absent [of "map_of [(''openai:gpt4'', [])]" "''openai:gpt4''", OF h]
  have "resolved_model_id (map_of [(''openai:gpt4'', [])]) ''openai:gpt4'' = ''openai:gpt4'' \<and>
   from_str (map_of [(''openai:gpt4'', [])]) ''openai:gpt4'' =
     from_str ((map_of [(''openai:gpt4'', [])])(''openai:gpt4'' := None)) ''openai:gpt4''" .
  with h show ?thesis by (rule conjI)
qed

section \<open>Claims about the string of an identifier\<close>

lemma ModelId_str_Cons: "ModelId_str m = provider_id m @ CHR '':'' # model_name m"
  by (simp add: ModelId_str_def)

lemma colon_in_ModelId_str: "CHR '':'' \<in> set (ModelId_str m)"
  by (simp add: ModelId_str_def)

lemma from_str_ModelId_str_iff:
  assumes "CHR '':'' \<notin> set (provider_id m)"
  shows "from_str aliases (ModelId_str m) = Inr m \<longleftrightarrow>
         resolved_model_id aliases (ModelId_str m) = ModelId_str m"
proof -
  have "from_str aliases (ModelId_str m) = Inr m \<longleftrightarrow>
        CHR '':'' \<in> set (ModelId_str m) \<and> CHR '':'' \<notin> set (provider_id m) \<and>
        resolved_model_id aliases (ModelId_str m) = provider_id m @ CHR '':'' # model_name m"
    by (rule from_str_Inr_iff)
  also have "\<dots> \<longleftrightarrow> resolved_model_id aliases (ModelId_str m) = ModelId_str m"
    using assms by (simp only: colon_in_ModelId_str ModelId_str_Cons [symmetric] simp_thms)
  finally show ?thesis .
qed

text \<open>
  When no alias key contains a colon, as in a table of short names, the string of an
  identifier is never an alias key and alias resolution leaves it as it is.
\<close>

lemma resolved_model_id_colon_free_keys:
  assumes keys: "\<forall>k\<in>dom aliases. CHR '':'' \<notin> set k" and s: "CHR '':'' \<in> set s"
  shows "resolved_model_id aliases s = s"
proof -
  have "s \<notin> dom aliases"
    using keys s by blast
  then have "aliases s = None"
    by (simp add: domIff)
  then show ?thesis
    by (rule resolved_model_id_absent)
qed

lemma from_str_ModelId_str_colon_free_keys:
  assumes "\<forall>k\<in>dom aliases. CHR '':'' \<notin> set k" and "CHR '':'' \<notin> set (provider_id m)"
  shows "from_str aliases (ModelId_str m) = Inr m"
proof -
  have "resolved_model_id aliases (ModelId_str m) = ModelId_str m"
    using assms(1) colon_in_ModelId_str by (rule resolved_model_id_colon_free_keys)
  with from_str_ModelId_str_iff [OF assms(2)] show ?thesis
    by (rule iffD2)
qed

subsection \<open>From a parsed identifier to its string and back\<close>

text \<open>
  Claim C6, as the specification states it: for every identifier that \<^verbatim>\<open>from_str\<close>
  returns, its string is \<open>provider + ":" + name\<close>, and \<^verbatim>\<open>from_str\<close> of that string gives
  the identifier back.

  \<^verbatim>\<open>from_str\<close> resolves aliases on every argument, so the second half fails when the
  string of the identifier is itself an alias key. With the table
  \<^verbatim>\<open>{"openai:latest": "openai:gpt4", "openai:gpt4": "openai-chat:gpt-4"}\<close>,
  \<^verbatim>\<open>from_str("openai:latest")\<close> is the identifier \<open>(openai, gpt4)\<close>, whose string
  \<^verbatim>\<open>"openai:gpt4"\<close> parses to \<open>(openai-chat, gpt-4)\<close>.
\<close>

theorem str_then_from_str_counterexample:
  "from_str (map_of [(''openai:latest'', ''openai:gpt4''), (''openai:gpt4'', ''openai-chat:gpt-4'')])
     ''openai:latest'' = Inr \<lparr>provider_id = ''openai'', model_name = ''gpt4''\<rparr> \<and>
   ModelId_str \<lparr>provider_id = ''openai'', model_name = ''gpt4''\<rparr> = ''openai:gpt4'' \<and>
   from_str (map_of [(''openai:latest'', ''openai:gpt4''), (''openai:gpt4'', ''openai-chat:gpt-4'')])
     (ModelId_str \<lparr>provider_id = ''openai'', model_name = ''gpt4''\<rparr>) =
       Inr \<lparr>provider_id = ''openai-chat'', model_name = ''gpt-4''\<rparr> \<and>
   from_str (map_of [(''openai:latest'', ''openai:gpt4''), (''openai:gpt4'', ''openai-chat:gpt-4'')])
     (ModelId_str \<lparr>provider_id = ''openai'', model_name = ''gpt4''\<rparr>) \<noteq>
       Inr \<lparr>provider_id = ''openai'', model_name = ''gpt4''\<rparr>"
  by (simp add: from_str_def resolved_model_id_def str_split1_def ModelId_str_def)

text \<open>
  Claim C6, amended: for every identifier that \<^verbatim>\<open>from_str\<close> returns, its string is
  \<open>provider + ":" + name\<close>, and \<^verbatim>\<open>from_str\<close> of that string gives the identifier back
  exactly when alias resolution leaves that string as it is (the string is not an alias
  key, or its alias value is empty or the string itself).
\<close>

theorem str_then_from_str_round_trip:
  assumes "from_str aliases s = Inr m"
  shows "ModelId_str m = provider_id m @ '':'' @ model_name m \<and>
         (from_str aliases (ModelId_str m) = Inr m \<longleftrightarrow>
          resolved_model_id aliases (ModelId_str m) = ModelId_str m)"
proof
  show "ModelId_str m = provider_id m @ '':'' @ model_name m"
    by (simp add: ModelId_str_def)
next
  from assms have "CHR '':'' \<notin> set (provider_id m)"
    by (simp add: from_str_Inr_iff)
  then show "from_str aliases (ModelId_str m) = Inr m \<longleftrightarrow>
      resolved_model_id aliases (ModelId_str m) = ModelId_str m"
    by (rule from_str_ModelId_str_iff)
qed

theorem str_then_from_str_round_trip_witness:
  "from_str (map_of [(''openai:latest'', ''openai:gpt4'')]) ''openai:latest'' =
     Inr \<lparr>provider_id = ''openai'', model_name = ''gpt4''\<rparr> \<and>
   ModelId_str \<lparr>provider_id = ''openai'', model_name = ''gpt4''\<rparr> = ''openai:gpt4'' \<and>
   from_str (map_of [(''openai:latest'', ''openai:gpt4'')])
     (ModelId_str \<lparr>provider_id = ''openai'', model_name = ''gpt4''\<rparr>) =
     Inr \<lparr>provider_id = ''openai'', model_name = ''gpt4''\<rparr>"
proof -
  let ?A = "map_of [(''openai:latest'', ''openai:gpt4'')]"
  let ?m = "\<lparr>provider_id = ''openai'', model_name = ''gpt4''\<rparr>"
  have h: "from_str ?A ''openai:latest'' = Inr ?m"
    by (simp add: from_str_def resolved_model_id_def str_split1_def)
  have s: "ModelId_str ?m = ''openai:gpt4''"
    by (simp add: ModelId_str_def)
  have r: "resolved_model_id ?A (ModelId_str ?m) = ModelId_str ?m"
    by (simp add: resolved_model_id_def ModelId_str_def)
  note t = str_then_from_str_round_trip [of ?A "''openai:latest''" ?m, OF h]
  from conjunct2 [OF t] r have "from_str ?A (ModelId_str ?m) = Inr ?m"
    by (rule iffD2)
  with h s show ?thesis by (intro conjI)
qed

subsection \<open>From a pair of strings to its string and back\<close>

text \<open>
  Claim C7, as the specification states it: for every provider without a colon and
  every name, \<^verbatim>\<open>from_str\<close> of the string of the identifier succeeds and gives an equal
  identifier.

  It fails when \<open>provider:name\<close> is an alias key: with the table
  \<^verbatim>\<open>{"openai:gpt4": "openai-chat:gpt-4"}\<close> the string of \<open>(openai, gpt4)\<close> parses to
  \<open>(openai-chat, gpt-4)\<close>.
\<close>

theorem from_str_of_str_counterexample:
  "CHR '':'' \<notin> set ''openai'' \<and>
   from_str (map_of [(''openai:gpt4'', ''openai-chat:gpt-4'')])
     (ModelId_str \<lparr>provider_id = ''openai'', model_name = ''gpt4''\<rparr>) =
       Inr \<lparr>provider_id = ''openai-chat'', model_name = ''gpt-4''\<rparr> \<and>
   from_str (map_of [(''openai:gpt4'', ''openai-chat:gpt-4'')])
     (ModelId_str \<lparr>provider_id = ''openai'', model_name = ''gpt4''\<rparr>) \<noteq>
       Inr \<lparr>provider_id = ''openai'', model_name = ''gpt4''\<rparr>"
  by (simp add: from_str_def resolved_model_id_def str_split1_def ModelId_str_def)

text \<open>
  Claim C7, amended: for every provider without a colon and every name such that alias
  resolution leaves \<open>provider:name\<close> as it is (it is not an alias key, or its alias value
  is empty or \<open>provider:name\<close> itself), \<^verbatim>\<open>from_str\<close> of the string of the identifier
  succeeds and gives an equal identifier.
\<close>

theorem from_str_of_str_round_trip:
  assumes "CHR '':'' \<notin> set p"
    and "resolved_model_id aliases (ModelId_str \<lparr>provider_id = p, model_name = n\<rparr>) =
         ModelId_str \<lparr>provider_id = p, model_name = n\<rparr>"
  shows "from_str aliases (ModelId_str \<lparr>provider_id = p, model_name = n\<rparr>) =
         Inr \<lparr>provider_id = p, model_name = n\<rparr>"
proof -
  let ?m = "\<lparr>provider_id = p, model_name = n\<rparr>"
  have "CHR '':'' \<notin> set (provider_id ?m)"
    using assms(1) by simp
  from from_str_ModelId_str_iff [OF this] assms(2) show ?thesis
    by (rule iffD2)
qed

theorem from_str_of_str_round_trip_witness:
  "CHR '':'' \<notin> set ''p'' \<and>
   resolved_model_id (map_of [(''gpt3'', ''openai:text-davinci-003'')])
     (ModelId_str \<lparr>provider_id = ''p'', model_name = ''a:b''\<rparr>) =
     ModelId_str \<lparr>provider_id = ''p'', model_name = ''a:b''\<rparr> \<and>
   from_str (map_of [(''gpt3'', ''openai:text-davinci-003'')])
     (ModelId_str \<lparr>provider_id = ''p'', model_name = ''a:b''\<rparr>) =
     Inr \<lparr>provider_id = ''p'', model_name = ''a:b''\<rparr>"
proof -
  let ?A = "map_of [(''gpt3'', ''openai:text-davinci-003'')]"
  have h1: "CHR '':'' \<notin> set ''p''" by simp
  have h2: "resolved_model_id ?A (ModelId_str \<lparr>provider_id = ''p'', model_name = ''a:b''\<rparr>) =
      ModelId_str \<lparr>provider_id = ''p'', model_name = ''a:b''\<rparr>"
    by (simp add: resolved_model_id_def ModelId_str_def)
  from h1 h2 from_str_of_str_round_trip [of "''p''" ?A "''a:b''", OF h1 h2]
  show ?thesis by (intro conjI)
qed

subsection \<open>The conversion to a string\<close>

text \<open>
  Claim C8: \<^verbatim>\<open>__str__\<close> is total: for every identifier, whatever its two strings, it
  returns \<open>provider + ":" + name\<close>.
\<close>

theorem ModelId_str_concat:
  "ModelId_str \<lparr>provider_id = p, model_name = n\<rparr> = p @ '':'' @ n"
  by (simp add: ModelId_str_def)

section \<open>Claims about \<^const>\<open>from_str\<close> as a function\<close>

text \<open>
  The outcome of \<^const>\<open>from_str\<close> depends on the table at the argument only.
\<close>

lemma from_str_depends_on_entry:
  assumes "s = s'" and "aliases s = aliases' s'"
  shows "from_str aliases s = from_str aliases' s'"
  using assms by (simp add: from_str_def resolved_model_id_def)

text \<open>
  The outcome of a run is \<^const>\<open>from_str\<close> of the table of the state and the argument,
  and the state after the run is the state before it.
\<close>

lemma from_str_run_eq:
  "from_str_run model_id \<sigma> = (from_str (MODEL_ID_ALIASES \<sigma>) model_id, \<sigma>)"
  by (simp add: from_str_run_def from_str_def Let_def split: sum.splits prod.splits)

text \<open>
  Claim C9: \<^verbatim>\<open>from_str\<close> is a pure, deterministic function of its two inputs, the alias
  table and the argument: two runs with the same table and equal arguments, from
  states that may differ in everything else, have equal outcomes (the same identifier
  or the same error), and each run leaves the state of the program, the table
  included, as it found it.
\<close>

theorem from_str_run_pure:
  assumes "MODEL_ID_ALIASES \<sigma> = MODEL_ID_ALIASES \<sigma>'" and "model_id = model_id'"
  shows "fst (from_str_run model_id \<sigma>) = fst (from_str_run model_id' \<sigma>') \<and>
         snd (from_str_run model_id \<sigma>) = \<sigma> \<and>
         snd (from_str_run model_id' \<sigma>') = \<sigma>'"
  using assms by (simp add: from_str_run_eq)

theorem from_str_run_pure_witness:
  "MODEL_ID_ALIASES \<lparr>MODEL_ID_ALIASES = map_of [(''gpt:4'', ''openai-chat:gpt-4'')], \<dots> = False\<rparr> =
     MODEL_ID_ALIASES \<lparr>MODEL_ID_ALIASES = map_of [(''gpt:4'', ''openai-chat:gpt-4'')], \<dots> = True\<rparr> \<and>
   ''gpt:4'' = ''gpt:4'' \<and>
   fst (from_str_run ''gpt:4''
          \<lparr>MODEL_ID_ALIASES = map_of [(''gpt:4'', ''openai-chat:gpt-4'')], \<dots> = False\<rparr>) =
     fst (from_str_run ''gpt:4''
          \<lparr>MODEL_ID_ALIASES = map_of [(''gpt:4'', ''openai-chat:gpt-4'')], \<dots> = True\<rparr>) \<and>
   snd (from_str_run ''gpt:4''
          \<lparr>MODEL_ID_ALIASES = map_of [(''gpt:4'', ''openai-chat:gpt-4'')], \<dots> = False\<rparr>) =
     \<lparr>MODEL_ID_ALIASES = map_of [(''gpt:4'', ''openai-chat:gpt-4'')], \<dots> = False\<rparr> \<and>
   snd (from_str_run ''gpt:4''
          \<lparr>MODEL_ID_ALIASES = map_of [(''gpt:4'', ''openai-chat:gpt-4'')], \<dots> = True\<rparr>) =
     \<lparr>MODEL_ID_ALIASES = map_of [(''gpt:4'', ''openai-chat:gpt-4'')], \<dots> = True\<rparr>"
proof -
  let ?A = "map_of [(''gpt:4'', ''openai-chat:gpt-4'')]"
  let ?s = "\<lparr>MODEL_ID_ALIASES = ?A, \<dots> = False\<rparr>"
  let ?t = "\<lparr>MODEL_ID_ALIASES = ?A, \<dots> = True\<rparr>"
  have h1: "MODEL_ID_ALIASES ?s = MODEL_ID_ALIASES ?t" by simp
  have h2: "''gpt:4'' = ''gpt:4''" by (rule refl)
  note t = from_str_run_pure [of ?s ?t "''gpt:4''" "''gpt:4''", OF h1 h2]
  from h1 h2 conjunct1 [OF t] conjunct1 [OF conjunct2 [OF t]] conjunct2 [OF conjunct2 [OF t]]
  show ?thesis by (intro conjI)
qed

text \<open>
  Claim C10: the provider of every identifier that \<^verbatim>\<open>from_str\<close> returns contains no
  colon: the resolved string is the provider, a colon and the name, so every colon
  after the first one is in the name.
\<close>

theorem from_str_provider_no_colon:
  assumes "from_str aliases s = Inr m"
  shows "CHR '':'' \<notin> set (provider_id m) \<and>
         resolved_model_id aliases s = provider_id m @ '':'' @ model_name m"
  using assms by (simp add: from_str_Inr_iff)

theorem from_str_provider_no_colon_witness:
  "from_str (map_of [(''claude'', ''bedrock:claude:v1'')]) ''p:a:b'' =
     Inr \<lparr>provider_id = ''p'', model_name = ''a:b''\<rparr> \<and>
   CHR '':'' \<notin> set (provider_id \<lparr>provider_id = ''p'', model_name = ''a:b''\<rparr>) \<and>
   resolved_model_id (map_of [(''claude'', ''bedrock:claude:v1'')]) ''p:a:b'' =
     provider_id \<lparr>provider_id = ''p'', model_name = ''a:b''\<rparr> @ '':'' @
     model_name \<lparr>provider_id = ''p'', model_name = ''a:b''\<rparr>"
proof -
  let ?A = "map_of [(''claude'', ''bedrock:claude:v1'')]"
  have h: "from_str ?A ''p:a:b'' = Inr \<lparr>provider_id = ''p'', model_name = ''a:b''\<rparr>"
    by (simp add: from_str_def resolved_model_id_def str_split1_def)
  note t = from_str_provider_no_colon [of ?A "''p:a:b''" "\<lparr>provider_id = ''p'', model_name = ''a:b''\<rparr>", OF h]
  from h conjunct1 [OF t] conjunct2 [OF t] show ?thesis by (intro conjI)
qed

end
